theory Spec2Isabelle
  imports Complex_Main
begin

section \<open>The frog sensor's sampling program (software/co2/co2.py)\<close>

text \<open>
  A shallow embedding of \<^verbatim>\<open>co2.py\<close>: the GPS classes (\<^verbatim>\<open>BaseGps\<close> and its three
  subclasses), the module-level configuration and the body of the \<^verbatim>\<open>while True\<close> loop of
  \<^verbatim>\<open>main\<close>. Python floats are read as reals, \<^verbatim>\<open>datetime\<close> and \<^verbatim>\<open>timedelta\<close> values as
  integer counts of microseconds (the resolution of both types). Exceptions are values;
  what the libraries and the hardware answer during a call is an explicit argument.
\<close>

subsection \<open>Time and configuration\<close>

type_synonym datetime = int
type_synonym timedelta = int

definition timedelta_seconds :: "int \<Rightarrow> timedelta" where
  "timedelta_seconds s = s * 1000000"

text \<open>\<^verbatim>\<open>os.getenv(name, default)\<close>: the variable's value, or the default when it is unset.\<close>

definition getenv :: "string option \<Rightarrow> string \<Rightarrow> string" where
  "getenv var dflt = (case var of None \<Rightarrow> dflt | Some v \<Rightarrow> v)"

text \<open>
  The environment after parsing: \<^verbatim>\<open>ENABLE_INFLUXDB\<close> as the raw variable (lines 49-55 test
  it), the others as the numbers that \<^verbatim>\<open>int(...)\<close> and \<^verbatim>\<open>float(...)\<close> made of them.
\<close>

record config =
  ENABLE_INFLUXDB_var :: "string option"
  BALENA_DEVICE_UUID :: "string option"
  GPS_DIGITS_PRECISION :: int
  GPS_FIX_MAX_AGE_SECONDS :: int
  DUMMY_GPS_LATITUDE :: real
  DUMMY_GPS_LONGITUDE :: real
  DUMMY_GPS_ALTITUDE :: real

definition ENABLE_INFLUXDB :: "string option \<Rightarrow> bool" where
  "ENABLE_INFLUXDB var =
     (getenv var ''true'' \<in> set [''true'', ''True'', ''1'', ''yes'', ''Yes''])"

definition GPS_FIX_MAX_AGE :: "config \<Rightarrow> timedelta" where
  "GPS_FIX_MAX_AGE cfg = timedelta_seconds (GPS_FIX_MAX_AGE_SECONDS cfg)"

subsection \<open>Rounding of coordinates\<close>

text \<open>
  Python's \<^verbatim>\<open>round(x, ndigits)\<close> on the real line: to the nearest multiple of
  \<open>10\<^sup>-\<^sup>n\<close>, a tie going to the even one.
\<close>

definition round_half_even :: "real \<Rightarrow> int" where
  "round_half_even x =
     (let f = \<lfloor>x\<rfloor>; d = x - of_int f
      in if d < 1 / 2 then f else if 1 / 2 < d then f + 1
         else if even f then f else f + 1)"

definition py_round :: "real \<Rightarrow> int \<Rightarrow> real" where
  "py_round x ndigits =
     (if 0 \<le> ndigits
      then of_int (round_half_even (x * 10 ^ nat ndigits)) / 10 ^ nat ndigits
      else of_int (round_half_even (x / 10 ^ nat (- ndigits))) * 10 ^ nat (- ndigits))"

subsection \<open>Fixes, exceptions, log lines\<close>

record GpsData =
  latitude :: real
  longitude :: real
  altitude :: "real option"
  acquired_at :: datetime

text \<open>
  The exceptions that travel through the GPS code. \<open>LibraryError\<close> is whatever gpsd, the
  Adafruit driver or the InfluxDB client raised; the other three are the \<^verbatim>\<open>Exception\<close>
  objects the program builds itself: "No GPS Fix" (line 169), "Last fix is too old
  (age > GPS_FIX_MAX_AGE)" chained \<^verbatim>\<open>from ex\<close> (lines 108-110) and "Waiting for first fix"
  (line 112).
\<close>

datatype py_exception =
    LibraryError string
  | NoGpsFix
  | LastFixTooOld timedelta timedelta py_exception
  | WaitingForFirstFix

subsection \<open>What the outside answers during one call of get\_data\<close>

record GpsResponse =
  position :: "py_exception + real \<times> real"
  packet_altitude :: "py_exception + real"

record gps_env =
  now :: datetime
  gpsd_connect :: "py_exception option"
  gpsd_get_current :: "py_exception + GpsResponse"
  gps_update :: "py_exception option"
  has_fix :: bool
  gps_latitude :: real
  gps_longitude :: real
  altitude_m :: "real option"

subsection \<open>The GPS classes\<close>

record BaseGps =
  last_fix :: "GpsData option"

record GpsdGps = BaseGps +
  is_valid :: bool

record I2CGps = BaseGps +
  i2c :: int

record DummyGps = BaseGps +
  dummy_latitude :: real
  dummy_longitude :: real
  dummy_altitude :: real

definition GpsdGps_init :: GpsdGps where
  "GpsdGps_init = \<lparr>last_fix = None, is_valid = False\<rparr>"

definition I2CGps_init :: "int \<Rightarrow> I2CGps" where
  "I2CGps_init bus = \<lparr>last_fix = None, i2c = bus\<rparr>"

definition DummyGps_init :: "config \<Rightarrow> DummyGps" where
  "DummyGps_init cfg =
     \<lparr>last_fix = None,
      dummy_latitude = DUMMY_GPS_LATITUDE cfg,
      dummy_longitude = DUMMY_GPS_LONGITUDE cfg,
      dummy_altitude = DUMMY_GPS_ALTITUDE cfg\<rparr>"

text \<open>
  \<^verbatim>\<open>GpsdGps._connect\<close> (lines 123-130). When \<^verbatim>\<open>gpsd.connect()\<close> raises, the handler stores
  False, then the \<^verbatim>\<open>finally\<close> block stores True, then the exception goes on to the caller.
\<close>

definition GpsdGps_connect :: "gps_env \<Rightarrow> GpsdGps \<Rightarrow> py_exception option \<times> GpsdGps" where
  "GpsdGps_connect w self =
     (case gpsd_connect w of
        None \<Rightarrow> (None, self\<lparr>is_valid := True\<rparr>)
      | Some ex \<Rightarrow> (Some ex, (self\<lparr>is_valid := False\<rparr>)\<lparr>is_valid := True\<rparr>))"

text \<open>The body of the \<^verbatim>\<open>try\<close> of \<^verbatim>\<open>GpsdGps._get_data\<close> (lines 136-144).\<close>

definition gpsd_read :: "config \<Rightarrow> gps_env \<Rightarrow> py_exception + GpsData" where
  "gpsd_read cfg w =
     (case gpsd_get_current w of
        Inl ex \<Rightarrow> Inl ex
      | Inr packet \<Rightarrow>
          (case position packet of
             Inl ex \<Rightarrow> Inl ex
           | Inr (lat, lon) \<Rightarrow>
               (case packet_altitude packet of
                  Inl ex \<Rightarrow> Inl ex
                | Inr alt \<Rightarrow>
                    Inr \<lparr>latitude = py_round lat (GPS_DIGITS_PRECISION cfg),
                         longitude = py_round lon (GPS_DIGITS_PRECISION cfg),
                         altitude = Some alt,
                         acquired_at = now w\<rparr>)))"

text \<open>\<^verbatim>\<open>GpsdGps._get_data\<close> (lines 132-147).\<close>

definition GpsdGps__get_data ::
  "config \<Rightarrow> gps_env \<Rightarrow> GpsdGps \<Rightarrow> (py_exception + GpsData) \<times> GpsdGps" where
  "GpsdGps__get_data cfg w self =
     (case (if \<not> is_valid self then GpsdGps_connect w self else (None, self)) of
        (Some ex, self1) \<Rightarrow> (Inl ex, self1)
      | (None, self1) \<Rightarrow>
          (case gpsd_read cfg w of
             Inr fix \<Rightarrow> (Inr fix, self1)
           | Inl ex \<Rightarrow> (Inl ex, self1\<lparr>is_valid := False\<rparr>)))"

text \<open>\<^verbatim>\<open>I2CGps._get_data\<close> (lines 166-174).\<close>

definition I2CGps__get_data ::
  "config \<Rightarrow> gps_env \<Rightarrow> I2CGps \<Rightarrow> (py_exception + GpsData) \<times> I2CGps" where
  "I2CGps__get_data cfg w self =
     (case gps_update w of
        Some ex \<Rightarrow> (Inl ex, self)
      | None \<Rightarrow>
          if \<not> has_fix w then (Inl NoGpsFix, self)
          else (Inr \<lparr>latitude = py_round (gps_latitude w) (GPS_DIGITS_PRECISION cfg),
                     longitude = py_round (gps_longitude w) (GPS_DIGITS_PRECISION cfg),
                     altitude = altitude_m w,
                     acquired_at = now w\<rparr>, self))"

text \<open>\<^verbatim>\<open>DummyGps._get_data\<close> (lines 186-189).\<close>

definition DummyGps__get_data ::
  "gps_env \<Rightarrow> DummyGps \<Rightarrow> (py_exception + GpsData) \<times> DummyGps" where
  "DummyGps__get_data w self =
     (Inr \<lparr>latitude = dummy_latitude self,
           longitude = dummy_longitude self,
           altitude = Some (dummy_altitude self),
           acquired_at = now w\<rparr>, self)"

text \<open>The object \<^verbatim>\<open>main\<close> holds in \<^verbatim>\<open>gps\<close>, and the dispatch of its methods.\<close>

datatype gps = Gpsd GpsdGps | I2C I2CGps | Dummy DummyGps

fun gps_last_fix :: "gps \<Rightarrow> GpsData option" where
  "gps_last_fix (Gpsd g) = last_fix g"
| "gps_last_fix (I2C g) = last_fix g"
| "gps_last_fix (Dummy g) = last_fix g"

fun gps_set_last_fix :: "GpsData option \<Rightarrow> gps \<Rightarrow> gps" where
  "gps_set_last_fix v (Gpsd g) = Gpsd (g\<lparr>last_fix := v\<rparr>)"
| "gps_set_last_fix v (I2C g) = I2C (g\<lparr>last_fix := v\<rparr>)"
| "gps_set_last_fix v (Dummy g) = Dummy (g\<lparr>last_fix := v\<rparr>)"

fun gps__get_data :: "config \<Rightarrow> gps_env \<Rightarrow> gps \<Rightarrow> (py_exception + GpsData) \<times> gps" where
  "gps__get_data cfg w (Gpsd g) = (case GpsdGps__get_data cfg w g of (r, g1) \<Rightarrow> (r, Gpsd g1))"
| "gps__get_data cfg w (I2C g) = (case I2CGps__get_data cfg w g of (r, g1) \<Rightarrow> (r, I2C g1))"
| "gps__get_data cfg w (Dummy g) = (case DummyGps__get_data w g of (r, g1) \<Rightarrow> (r, Dummy g1))"

datatype log_entry =
    Warning_using_last_known_fix timedelta
  | Error_getting_GPS_position py_exception
  | Info_data "(string \<times> real option) list"

text \<open>Lines 111-113, the end of \<^verbatim>\<open>BaseGps.get_data\<close>.\<close>

definition get_data_return ::
  "gps \<Rightarrow> log_entry list \<Rightarrow> (py_exception + GpsData) \<times> gps \<times> log_entry list" where
  "get_data_return self lg =
     (case gps_last_fix self of
        None \<Rightarrow> (Inl WaitingForFirstFix, self, lg)
      | Some fix \<Rightarrow> (Inr fix, self, lg))"

text \<open>
  \<^verbatim>\<open>BaseGps.get_data\<close> (lines 96-113): the result or the exception raised, the object
  afterwards, and the lines written to the log.
\<close>

definition get_data ::
  "config \<Rightarrow> gps_env \<Rightarrow> gps \<Rightarrow> (py_exception + GpsData) \<times> gps \<times> log_entry list" where
  "get_data cfg w self =
     (case gps__get_data cfg w self of
        (Inr fix, self1) \<Rightarrow> get_data_return (gps_set_last_fix (Some fix) self1) []
      | (Inl ex, self1) \<Rightarrow>
          (case gps_last_fix self1 of
             Some lf \<Rightarrow>
               (let age = now w - acquired_at lf
                in if age < GPS_FIX_MAX_AGE cfg
                   then get_data_return self1 [Warning_using_last_known_fix age]
                   else (Inl (LastFixTooOld age (GPS_FIX_MAX_AGE cfg) ex), self1, []))
           | None \<Rightarrow> get_data_return self1 []))"

text \<open>
  A caller that calls \<^verbatim>\<open>get_data\<close> again and again on the same object, as the loop of
  \<^verbatim>\<open>main\<close> does: one \<open>gps_env\<close> per call, the result and the log lines of every call, and
  the object at the end.
\<close>

fun get_data_repeat ::
  "config \<Rightarrow> gps_env list \<Rightarrow> gps \<Rightarrow> ((py_exception + GpsData) \<times> log_entry list) list \<times> gps" where
  "get_data_repeat cfg [] self = ([], self)"
| "get_data_repeat cfg (w # ws) self =
     (case get_data cfg w self of
        (r, self1, lg) \<Rightarrow>
          (case get_data_repeat cfg ws self1 of (rs, self2) \<Rightarrow> ((r, lg) # rs, self2)))"

text \<open>Every call of such a run finds \<^verbatim>\<open>self._get_data()\<close> raising.\<close>

fun acquisitions_fail :: "config \<Rightarrow> gps_env list \<Rightarrow> gps \<Rightarrow> bool" where
  "acquisitions_fail cfg [] self = True"
| "acquisitions_fail cfg (w # ws) self =
     (case fst (gps__get_data cfg w self) of
        Inl ex \<Rightarrow> acquisitions_fail cfg ws (fst (snd (get_data cfg w self)))
      | Inr fix \<Rightarrow> False)"

subsection \<open>The sampling loop of main\<close>

text \<open>
  The values \<^verbatim>\<open>main\<close> assigns to the attributes of the SCD30 (lines 236 and 251-253, and
  line 281 in the loop). The driver is not part of this program: it is taken to accept
  every value and to hand it back when the attribute is read (lines 297-298 and 311-315).
\<close>

record SCD30 =
  ambient_pressure :: real
  temperature_offset :: real
  scd_altitude :: real
  self_calibration_enabled :: bool

text \<open>
  What the sensors, the GPS and the InfluxDB client answer during one pass of the loop:
  \<^verbatim>\<open>scd.data_available\<close>, \<^verbatim>\<open>scd.CO2\<close>, \<^verbatim>\<open>scd.temperature\<close>, \<^verbatim>\<open>scd.relative_humidity\<close>,
  \<^verbatim>\<open>dps310.pressure\<close>, \<^verbatim>\<open>dps310.temperature\<close>, \<^verbatim>\<open>datetime.utcnow()\<close>, and whether
  \<^verbatim>\<open>write_api.write\<close> raises. The sensor attributes are read as plain values that stay
  the same during the pass.
\<close>

record cycle_env =
  data_available :: bool
  CO2 :: real
  temperature :: real
  relative_humidity :: real
  pressure :: real
  baro_temperature :: real
  gps_answers :: gps_env
  utcnow :: datetime
  influx_write :: "py_exception option"

record Point =
  measurement :: string
  point_tags :: "(string \<times> string option) list"
  point_fields :: "(string \<times> real option) list"
  point_time :: datetime

record loop_state =
  gps :: gps
  scd :: SCD30

record cycle_output =
  influx_writes :: "Point list"
  logged :: "log_entry list"

text \<open>The state before the loop (lines 236-253), for the GPS object that was selected.\<close>

definition main_init :: "gps \<Rightarrow> loop_state" where
  "main_init g =
     \<lparr>gps = g,
      scd = \<lparr>ambient_pressure = 1007, temperature_offset = 4, scd_altitude = 0,
             self_calibration_enabled = True\<rparr>\<rparr>"

text \<open>Lines 285-299.\<close>

definition ghg_point :: "config \<Rightarrow> cycle_env \<Rightarrow> SCD30 \<Rightarrow> GpsData \<Rightarrow> Point" where
  "ghg_point cfg e sc gps_data =
     \<lparr>measurement = ''ghg_point'',
      point_tags = [(''host'', BALENA_DEVICE_UUID cfg)],
      point_fields =
        [(''co2'', Some (CO2 e)),
         (''temperature'', Some (temperature e)),
         (''humidity'', Some (relative_humidity e)),
         (''lat'', Some (latitude gps_data)),
         (''lon'', Some (longitude gps_data)),
         (''alt'', altitude gps_data),
         (''baro_pressure'', Some (pressure e)),
         (''baro_temperature'', Some (baro_temperature e)),
         (''scd30_pressure_mbar'', Some (ambient_pressure sc)),
         (''scd30_altitude_m'', Some (scd_altitude sc))],
      point_time = utcnow e\<rparr>"

text \<open>Lines 304-315.\<close>

definition mqtt_data :: "cycle_env \<Rightarrow> SCD30 \<Rightarrow> GpsData \<Rightarrow> (string \<times> real option) list" where
  "mqtt_data e sc gps_data =
     [(''CO2'', Some (CO2 e)),
      (''Temperature'', Some (temperature e)),
      (''Relative_Humidity'', Some (relative_humidity e)),
      (''Latitude'', Some (latitude gps_data)),
      (''Longitude'', Some (longitude gps_data)),
      (''Altitude'', altitude gps_data),
      (''scd_temp_offset'', Some (temperature_offset sc)),
      (''baro_temp'', Some (baro_temperature e)),
      (''baro_pressure_hpa'', Some (pressure e)),
      (''scd30_pressure_mbar'', Some (ambient_pressure sc)),
      (''scd30_alt_m'', Some (scd_altitude sc))]"

text \<open>
  One pass of the \<^verbatim>\<open>while True\<close> loop (lines 255-317). The first component is the exception
  that leaves \<^verbatim>\<open>main\<close>, if one does; \<open>None\<close> means the loop goes on to its next pass.
  \<open>influx_writes\<close> are the points handed to \<^verbatim>\<open>write_api.write\<close> in this pass.
\<close>

definition cycle ::
  "config \<Rightarrow> cycle_env \<Rightarrow> loop_state \<Rightarrow> py_exception option \<times> loop_state \<times> cycle_output" where
  "cycle cfg e s =
     (if \<not> data_available e then (None, s, \<lparr>influx_writes = [], logged = []\<rparr>)
      else
        (case get_data cfg (gps_answers e) (gps s) of
           (Inl ex, g, lg) \<Rightarrow>
             (None, s\<lparr>gps := g\<rparr>,
              \<lparr>influx_writes = [], logged = lg @ [Error_getting_GPS_position ex]\<rparr>)
         | (Inr gps_data, g, lg) \<Rightarrow>
             (let sc = (if 0 < pressure e then (scd s)\<lparr>ambient_pressure := pressure e\<rparr>
                        else scd s);
                  s1 = \<lparr>gps = g, scd = sc\<rparr>
              in if ENABLE_INFLUXDB (ENABLE_INFLUXDB_var cfg)
                 then
                   (case influx_write e of
                      Some ex \<Rightarrow>
                        (Some ex, s1,
                         \<lparr>influx_writes = [ghg_point cfg e sc gps_data], logged = lg\<rparr>)
                    | None \<Rightarrow>
                        (None, s1,
                         \<lparr>influx_writes = [ghg_point cfg e sc gps_data],
                          logged = lg @ [Info_data (mqtt_data e sc gps_data)]\<rparr>))
                 else
                   (None, s1,
                    \<lparr>influx_writes = [], logged = lg @ [Info_data (mqtt_data e sc gps_data)]\<rparr>))))"

text \<open>The loop over the passes it gets to make, up to an exception that leaves it.\<close>

fun main_loop ::
  "config \<Rightarrow> cycle_env list \<Rightarrow> loop_state \<Rightarrow> py_exception option \<times> loop_state \<times> cycle_output list" where
  "main_loop cfg [] s = (None, s, [])"
| "main_loop cfg (e # es) s =
     (case cycle cfg e s of
        (Some ex, s1, out) \<Rightarrow> (Some ex, s1, [out])
      | (None, s1, out) \<Rightarrow>
          (case main_loop cfg es s1 of (r, s2, outs) \<Rightarrow> (r, s2, out # outs)))"

subsection \<open>Concrete inputs\<close>

text \<open>
  The defaults of the module (two digits, 600 seconds), a fix taken at time 0, and
  environments in which the I2C receiver has no fix at a given second.
\<close>

definition default_config :: config where
  "default_config =
     \<lparr>ENABLE_INFLUXDB_var = None, BALENA_DEVICE_UUID = None,
      GPS_DIGITS_PRECISION = 2, GPS_FIX_MAX_AGE_SECONDS = 600,
      DUMMY_GPS_LATITUDE = 0, DUMMY_GPS_LONGITUDE = 0, DUMMY_GPS_ALTITUDE = 0\<rparr>"

definition fix_at_0 :: GpsData where
  "fix_at_0 = \<lparr>latitude = 3742 / 100, longitude = - (12208 / 100), altitude = Some 30,
               acquired_at = 0\<rparr>"

definition no_fix_at :: "int \<Rightarrow> gps_env" where
  "no_fix_at secs =
     \<lparr>now = timedelta_seconds secs,
      gpsd_connect = Some (LibraryError ''ConnectionRefusedError''),
      gpsd_get_current = Inl (LibraryError ''NoFixError''),
      gps_update = None, has_fix = False, gps_latitude = 0, gps_longitude = 0,
      altitude_m = None\<rparr>"

definition i2c_with_fix_at_0 :: gps where
  "i2c_with_fix_at_0 = I2C \<lparr>last_fix = Some fix_at_0, i2c = 11\<rparr>"

definition sample_env :: "bool \<Rightarrow> real \<Rightarrow> gps_env \<Rightarrow> cycle_env" where
  "sample_env avail p w =
     \<lparr>data_available = avail, CO2 = 415, temperature = 21, relative_humidity = 40,
      pressure = p, baro_temperature = 20, gps_answers = w, utcnow = now w,
      influx_write = None\<rparr>"

section \<open>Properties\<close>

subsection \<open>Auxiliary facts\<close>

text \<open>None of the three \<^verbatim>\<open>_get_data\<close> methods assigns \<^verbatim>\<open>_last_fix\<close>.\<close>

lemma gps__get_data_last_fix:
  "gps__get_data cfg w self = (r, self1) \<Longrightarrow> gps_last_fix self1 = gps_last_fix self"
  by (cases self)
     (auto simp: GpsdGps__get_data_def GpsdGps_connect_def I2CGps__get_data_def
        DummyGps__get_data_def split: option.splits sum.splits if_splits prod.splits)

text \<open>The warning is the only line \<^verbatim>\<open>get_data\<close> logs, and it comes with a returned fix.\<close>

lemma get_data_failure_log:
  "get_data cfg w self = (Inl ex, self1, lg) \<Longrightarrow> lg = []"
  by (auto simp: get_data_def get_data_return_def Let_def
      split: prod.splits sum.splits option.splits if_splits)

lemma get_data_stale_step:
  assumes "gps_last_fix self = Some F"
    and "fst (gps__get_data cfg w self) = Inl ex"
    and "now w - acquired_at F < GPS_FIX_MAX_AGE cfg"
  shows "get_data cfg w self =
           (Inr F, snd (gps__get_data cfg w self),
            [Warning_using_last_known_fix (now w - acquired_at F)])"
proof -
  obtain self1 where g: "gps__get_data cfg w self = (Inl ex, self1)"
    using assms(2) by (cases "gps__get_data cfg w self") auto
  from gps__get_data_last_fix [OF g] assms(1) have "gps_last_fix self1 = Some F" by simp
  with g assms(3) show ?thesis
    by (simp add: get_data_def get_data_return_def)
qed

lemma get_data_Dummy:
  "get_data cfg w (Dummy d) =
     (Inr \<lparr>latitude = dummy_latitude d, longitude = dummy_longitude d,
           altitude = Some (dummy_altitude d), acquired_at = now w\<rparr>,
      Dummy (d\<lparr>last_fix := Some \<lparr>latitude = dummy_latitude d, longitude = dummy_longitude d,
           altitude = Some (dummy_altitude d), acquired_at = now w\<rparr>\<rparr>), [])"
  by (simp add: get_data_def get_data_return_def DummyGps__get_data_def)

lemma get_data_repeat_Dummy:
  "fst (get_data_repeat cfg ws (Dummy d)) =
     map (\<lambda>w. (Inr \<lparr>latitude = dummy_latitude d, longitude = dummy_longitude d,
                     altitude = Some (dummy_altitude d), acquired_at = now w\<rparr>, [])) ws"
proof (induction ws arbitrary: d)
  case Nil
  then show ?case by simp
next
  case (Cons w ws)
  let ?fix = "\<lparr>latitude = dummy_latitude d, longitude = dummy_longitude d,
           altitude = Some (dummy_altitude d), acquired_at = now w\<rparr>"
  from Cons.IH [of "d\<lparr>last_fix := Some ?fix\<rparr>"] show ?case
    by (cases "get_data_repeat cfg ws (Dummy (d\<lparr>last_fix := Some ?fix\<rparr>))")
       (simp add: get_data_Dummy)
qed

subsection \<open>The fallback to the last fix\<close>

text \<open>
  Claim C1. The object holds a fix \<open>F\<close>, and \<^verbatim>\<open>get_data\<close> is called any number of times
  (once, for a list of one element), each call finding \<^verbatim>\<open>_get_data\<close> raising at a moment
  when \<open>F\<close> is younger than \<^verbatim>\<open>GPS_FIX_MAX_AGE\<close>. Then every call returns \<open>F\<close> itself, all
  four fields and so its \<open>acquired_at\<close> as they were, after logging one warning with the
  age, and the object still holds \<open>F\<close> at the end.
\<close>

theorem stale_fix_reused_while_young:
  assumes "gps_last_fix self = Some F"
    and "acquisitions_fail cfg ws self"
    and "\<forall>w \<in> set ws. now w - acquired_at F < GPS_FIX_MAX_AGE cfg"
  shows "fst (get_data_repeat cfg ws self) =
           map (\<lambda>w. (Inr F, [Warning_using_last_known_fix (now w - acquired_at F)])) ws
         \<and> gps_last_fix (snd (get_data_repeat cfg ws self)) = Some F"
  using assms
proof (induction ws arbitrary: self)
  case Nil
  then show ?case by simp
next
  case (Cons w ws)
  from Cons.prems(2) obtain ex where f: "fst (gps__get_data cfg w self) = Inl ex"
    by (auto split: sum.splits)
  from Cons.prems(3) have young: "now w - acquired_at F < GPS_FIX_MAX_AGE cfg" by simp
  let ?self1 = "snd (gps__get_data cfg w self)"
  have step: "get_data cfg w self =
      (Inr F, ?self1, [Warning_using_last_known_fix (now w - acquired_at F)])"
    by (rule get_data_stale_step [OF Cons.prems(1) f young])
  have lf: "gps_last_fix ?self1 = Some F"
    using gps__get_data_last_fix [of cfg w self "fst (gps__get_data cfg w self)" ?self1]
      Cons.prems(1) by simp
  have fails: "acquisitions_fail cfg ws ?self1"
    using Cons.prems(2) f step by simp
  have rest: "\<forall>w \<in> set ws. now w - acquired_at F < GPS_FIX_MAX_AGE cfg"
    using Cons.prems(3) by simp
  from Cons.IH [OF lf fails rest] step show ?case
    by (cases "get_data_repeat cfg ws ?self1") simp
qed

text \<open>
  With the default 600 seconds: a fix of time 0, and the receiver without a fix at
  seconds 300 and 599.
\<close>

theorem stale_fix_reused_while_young_witness:
  "gps_last_fix i2c_with_fix_at_0 = Some fix_at_0
   \<and> acquisitions_fail default_config [no_fix_at 300, no_fix_at 599] i2c_with_fix_at_0
   \<and> now (no_fix_at 300) - acquired_at fix_at_0 < GPS_FIX_MAX_AGE default_config
   \<and> now (no_fix_at 599) - acquired_at fix_at_0 < GPS_FIX_MAX_AGE default_config
   \<and> fst (get_data_repeat default_config [no_fix_at 300, no_fix_at 599] i2c_with_fix_at_0) =
       [(Inr fix_at_0, [Warning_using_last_known_fix 300000000]),
        (Inr fix_at_0, [Warning_using_last_known_fix 599000000])]
   \<and> gps_last_fix (snd (get_data_repeat default_config [no_fix_at 300, no_fix_at 599]
        i2c_with_fix_at_0)) = Some fix_at_0"
proof -
  have h1: "gps_last_fix i2c_with_fix_at_0 = Some fix_at_0"
    by (simp add: i2c_with_fix_at_0_def)
  have h2: "acquisitions_fail default_config [no_fix_at 300, no_fix_at 599] i2c_with_fix_at_0"
    by (simp add: i2c_with_fix_at_0_def no_fix_at_def I2CGps__get_data_def get_data_def
        get_data_return_def GPS_FIX_MAX_AGE_def timedelta_seconds_def default_config_def
        fix_at_0_def)
  have h3: "\<forall>w \<in> set [no_fix_at 300, no_fix_at 599].
         now w - acquired_at fix_at_0 < GPS_FIX_MAX_AGE default_config"
    by (simp add: no_fix_at_def GPS_FIX_MAX_AGE_def timedelta_seconds_def default_config_def
        fix_at_0_def)
  from stale_fix_reused_while_young [OF h1 h2 h3] h1 h2 h3 show ?thesis
    by (simp add: no_fix_at_def fix_at_0_def timedelta_seconds_def)
qed

text \<open>
  Claim C2. The object holds a fix \<open>F\<close>, \<^verbatim>\<open>_get_data\<close> raises \<open>ex\<close>, and the age of \<open>F\<close> is
  \<^verbatim>\<open>GPS_FIX_MAX_AGE\<close> or more. Then \<^verbatim>\<open>get_data\<close> raises the "Last fix is too old"
  exception, which carries the age and the threshold (and \<open>ex\<close> as its cause); it does
  not return \<open>F\<close>, and logs nothing.
\<close>

theorem stale_fix_refused_when_old:
  assumes "gps_last_fix self = Some F"
    and "gps__get_data cfg w self = (Inl ex, self1)"
    and "GPS_FIX_MAX_AGE cfg \<le> now w - acquired_at F"
  shows "get_data cfg w self =
           (Inl (LastFixTooOld (now w - acquired_at F) (GPS_FIX_MAX_AGE cfg) ex), self1, [])"
proof -
  from gps__get_data_last_fix [OF assms(2)] assms(1) have "gps_last_fix self1 = Some F"
    by simp
  with assms(2,3) show ?thesis
    by (simp add: get_data_def)
qed

text \<open>At the threshold itself: the fix of time 0 is refused at second 600.\<close>

theorem stale_fix_refused_when_old_witness:
  "get_data default_config (no_fix_at 600) i2c_with_fix_at_0 =
     (Inl (LastFixTooOld 600000000 600000000 NoGpsFix), i2c_with_fix_at_0, [])"
proof -
  have h1: "gps_last_fix i2c_with_fix_at_0 = Some fix_at_0"
    by (simp add: i2c_with_fix_at_0_def)
  have h2: "gps__get_data default_config (no_fix_at 600) i2c_with_fix_at_0 =
      (Inl NoGpsFix, i2c_with_fix_at_0)"
    by (simp add: i2c_with_fix_at_0_def no_fix_at_def I2CGps__get_data_def)
  have h3: "GPS_FIX_MAX_AGE default_config \<le> now (no_fix_at 600) - acquired_at fix_at_0"
    by (simp add: no_fix_at_def GPS_FIX_MAX_AGE_def timedelta_seconds_def default_config_def
        fix_at_0_def)
  from stale_fix_refused_when_old [OF h1 h2 h3] show ?thesis
    by (simp add: no_fix_at_def GPS_FIX_MAX_AGE_def timedelta_seconds_def default_config_def
        fix_at_0_def)
qed

text \<open>
  Claim C3. The object holds no fix and \<^verbatim>\<open>_get_data\<close> raises, whatever exception \<open>ex\<close> it
  is. Then \<^verbatim>\<open>get_data\<close> raises "Waiting for first fix".
\<close>

theorem first_fix_missing_raises_waiting:
  assumes "gps_last_fix self = None"
    and "gps__get_data cfg w self = (Inl ex, self1)"
  shows "get_data cfg w self = (Inl WaitingForFirstFix, self1, [])"
proof -
  from gps__get_data_last_fix [OF assms(2)] assms(1) have "gps_last_fix self1 = None"
    by simp
  with assms(2) show ?thesis
    by (simp add: get_data_def get_data_return_def)
qed

text \<open>A new \<^verbatim>\<open>GpsdGps\<close> whose daemon refuses the connection.\<close>

theorem first_fix_missing_raises_waiting_witness:
  "get_data default_config (no_fix_at 5) (Gpsd GpsdGps_init) =
     (Inl WaitingForFirstFix, Gpsd \<lparr>last_fix = None, is_valid = True\<rparr>, [])"
proof -
  have h1: "gps_last_fix (Gpsd GpsdGps_init) = None"
    by (simp add: GpsdGps_init_def)
  have h2: "gps__get_data default_config (no_fix_at 5) (Gpsd GpsdGps_init) =
      (Inl (LibraryError ''ConnectionRefusedError''), Gpsd \<lparr>last_fix = None, is_valid = True\<rparr>)"
    by (simp add: GpsdGps_init_def no_fix_at_def GpsdGps__get_data_def GpsdGps_connect_def)
  from first_fix_missing_raises_waiting [OF h1 h2] show ?thesis .
qed

text \<open>
  Claim C8. A call of \<^verbatim>\<open>get_data\<close> in which \<^verbatim>\<open>_get_data\<close> raises leaves \<^verbatim>\<open>_last_fix\<close> as it
  was, whichever of the three ways the call ends; so \<^verbatim>\<open>_last_fix\<close> changes only in a
  call whose \<^verbatim>\<open>_get_data\<close> returned.
\<close>

theorem failed_acquisition_keeps_last_fix:
  assumes "fst (gps__get_data cfg w self) = Inl ex"
  shows "gps_last_fix (fst (snd (get_data cfg w self))) = gps_last_fix self"
proof -
  obtain self1 where g: "gps__get_data cfg w self = (Inl ex, self1)"
    using assms by (cases "gps__get_data cfg w self") auto
  have same: "gps_last_fix self1 = gps_last_fix self"
    by (rule gps__get_data_last_fix [OF g])
  show ?thesis
  proof (cases "gps_last_fix self")
    case None
    with g same show ?thesis
      by (simp add: get_data_def get_data_return_def)
  next
    case (Some F)
    with g same show ?thesis
      by (simp add: get_data_def get_data_return_def Let_def)
  qed
qed

theorem failed_acquisition_keeps_last_fix_witness:
  "fst (gps__get_data default_config (no_fix_at 300) i2c_with_fix_at_0) = Inl NoGpsFix
   \<and> gps_last_fix (fst (snd (get_data default_config (no_fix_at 300) i2c_with_fix_at_0))) =
       Some fix_at_0"
proof -
  have h: "fst (gps__get_data default_config (no_fix_at 300) i2c_with_fix_at_0) = Inl NoGpsFix"
    by (simp add: i2c_with_fix_at_0_def no_fix_at_def I2CGps__get_data_def)
  from failed_acquisition_keeps_last_fix [OF h] h show ?thesis
    by (simp add: i2c_with_fix_at_0_def)
qed

text \<open>
  Claim C9. Whenever \<^verbatim>\<open>get_data\<close> returns a fix, the object holds that very fix in
  \<^verbatim>\<open>_last_fix\<close> when the call ends, which is therefore not empty.
\<close>

theorem returned_fix_is_last_fix:
  assumes "get_data cfg w self = (Inr fix, self1, lg)"
  shows "gps_last_fix self1 = Some fix"
proof -
  have ret: "\<And>g l. get_data_return g l = (Inr fix, self1, lg) \<Longrightarrow> gps_last_fix self1 = Some fix"
    by (auto simp: get_data_return_def split: option.splits)
  from assms show ?thesis
    by (auto simp: get_data_def Let_def dest: ret
        split: prod.splits sum.splits option.splits if_splits)
qed

theorem returned_fix_is_last_fix_witness:
  "get_data default_config (no_fix_at 300) i2c_with_fix_at_0 =
     (Inr fix_at_0, i2c_with_fix_at_0, [Warning_using_last_known_fix 300000000])
   \<and> gps_last_fix i2c_with_fix_at_0 = Some fix_at_0"
proof -
  have h: "get_data default_config (no_fix_at 300) i2c_with_fix_at_0 =
     (Inr fix_at_0, i2c_with_fix_at_0, [Warning_using_last_known_fix 300000000])"
    by (simp add: i2c_with_fix_at_0_def no_fix_at_def I2CGps__get_data_def get_data_def
        get_data_return_def GPS_FIX_MAX_AGE_def timedelta_seconds_def default_config_def
        fix_at_0_def)
  from returned_fix_is_last_fix [OF h] h show ?thesis by simp
qed

subsection \<open>The GPS sources\<close>

text \<open>
  Claim C4. A \<^verbatim>\<open>GpsdGps\<close> that is not connected calls \<^verbatim>\<open>gpsd.connect()\<close>, which raises
  \<open>ex\<close>: \<^verbatim>\<open>_get_data\<close> raises \<open>ex\<close>, and \<^verbatim>\<open>_is_valid\<close> is True afterwards. The next call,
  finding it True, goes to \<^verbatim>\<open>gpsd.get_current()\<close> without connecting: its result does not
  depend on what \<^verbatim>\<open>gpsd.connect()\<close> would do.
\<close>

theorem gpsd_connect_failure_leaves_is_valid_set:
  "GpsdGps__get_data cfg (w\<lparr>gpsd_connect := Some ex\<rparr>) (self\<lparr>is_valid := False\<rparr>) =
     (Inl ex, self\<lparr>is_valid := True\<rparr>)
   \<and> GpsdGps__get_data cfg w2 (self\<lparr>is_valid := True\<rparr>) =
     (case gpsd_read cfg w2 of
        Inr fix \<Rightarrow> (Inr fix, self\<lparr>is_valid := True\<rparr>)
      | Inl ex2 \<Rightarrow> (Inl ex2, self\<lparr>is_valid := False\<rparr>))"
  by (simp add: GpsdGps__get_data_def GpsdGps_connect_def split: sum.splits)

text \<open>
  Two calls of \<^verbatim>\<open>DummyGps._get_data\<close> on one object, a second apart, return fixes that
  differ (in \<open>acquired_at\<close>).
\<close>

theorem dummy_fix_differs_in_acquired_at:
  "fst (DummyGps__get_data (no_fix_at 0) (DummyGps_init default_config)) \<noteq>
   fst (DummyGps__get_data (no_fix_at 1) (DummyGps_init default_config))"
  by (simp add: DummyGps__get_data_def no_fix_at_def timedelta_seconds_def)

text \<open>
  Claim C7, amended. \<^verbatim>\<open>DummyGps._get_data\<close> never raises and leaves the object as it is;
  the fix it returns has the object's latitude, longitude and altitude, and the time of
  the call as \<open>acquired_at\<close>. So any number of \<^verbatim>\<open>get_data\<close> calls on an object made from
  a configuration all return the configured latitude, longitude and altitude, each with
  the time of its call, and log nothing.
\<close>

theorem dummy_acquire_never_fails:
  "DummyGps__get_data w self =
     (Inr \<lparr>latitude = dummy_latitude self, longitude = dummy_longitude self,
           altitude = Some (dummy_altitude self), acquired_at = now w\<rparr>, self)
   \<and> fst (get_data_repeat cfg ws (Dummy (DummyGps_init cfg))) =
     map (\<lambda>w. (Inr \<lparr>latitude = DUMMY_GPS_LATITUDE cfg, longitude = DUMMY_GPS_LONGITUDE cfg,
                     altitude = Some (DUMMY_GPS_ALTITUDE cfg), acquired_at = now w\<rparr>, [])) ws"
  by (simp add: DummyGps__get_data_def get_data_repeat_Dummy DummyGps_init_def)

subsection \<open>The sampling loop\<close>

text \<open>
  Claim C5. In a pass of the loop in which \<^verbatim>\<open>get_data\<close> raises \<open>ex\<close>, the loop logs \<open>ex\<close>
  and does nothing else: nothing is handed to \<^verbatim>\<open>write_api.write\<close>, no data line is
  logged, the SCD30 settings stay as they were, no exception leaves \<^verbatim>\<open>main\<close>, and the
  loop goes on with its next pass.
\<close>

theorem gps_failure_skips_cycle:
  assumes "data_available e"
    and "get_data cfg (gps_answers e) (gps s) = (Inl ex, g, lg)"
  shows "cycle cfg e s =
           (None, s\<lparr>gps := g\<rparr>,
            \<lparr>influx_writes = [], logged = [Error_getting_GPS_position ex]\<rparr>)
         \<and> main_loop cfg (e # es) s =
           (case main_loop cfg es (s\<lparr>gps := g\<rparr>) of
              (r, s2, outs) \<Rightarrow>
                (r, s2, \<lparr>influx_writes = [], logged = [Error_getting_GPS_position ex]\<rparr> # outs))"
proof -
  have "lg = []"
    by (rule get_data_failure_log [OF assms(2)])
  with assms have c: "cycle cfg e s =
      (None, s\<lparr>gps := g\<rparr>, \<lparr>influx_writes = [], logged = [Error_getting_GPS_position ex]\<rparr>)"
    by (simp add: cycle_def)
  then show ?thesis by simp
qed

text \<open>The fix of time 0 at second 650, with new CO2 data and a barometer at 1000.\<close>

theorem gps_failure_skips_cycle_witness:
  "cycle default_config (sample_env True 1000 (no_fix_at 650)) (main_init i2c_with_fix_at_0) =
     (None, main_init i2c_with_fix_at_0,
      \<lparr>influx_writes = [],
       logged = [Error_getting_GPS_position (LastFixTooOld 650000000 600000000 NoGpsFix)]\<rparr>)
   \<and> main_loop default_config [sample_env True 1000 (no_fix_at 650)]
       (main_init i2c_with_fix_at_0) =
     (None, main_init i2c_with_fix_at_0,
      [\<lparr>influx_writes = [],
        logged = [Error_getting_GPS_position (LastFixTooOld 650000000 600000000 NoGpsFix)]\<rparr>])"
proof -
  have h1: "data_available (sample_env True 1000 (no_fix_at 650))"
    by (simp add: sample_env_def)
  have h2: "get_data default_config (gps_answers (sample_env True 1000 (no_fix_at 650)))
      (gps (main_init i2c_with_fix_at_0)) =
      (Inl (LastFixTooOld 650000000 600000000 NoGpsFix), i2c_with_fix_at_0, [])"
    by (simp add: sample_env_def main_init_def i2c_with_fix_at_0_def no_fix_at_def
        I2CGps__get_data_def get_data_def GPS_FIX_MAX_AGE_def timedelta_seconds_def
        default_config_def fix_at_0_def)
  from gps_failure_skips_cycle [OF h1 h2, of "[]"] show ?thesis
    by (simp add: main_init_def)
qed




subsection \<open>Configuration\<close>

text \<open>
  Claim C10. \<^verbatim>\<open>ENABLE_INFLUXDB\<close> is true exactly when the variable is unset or is one of
  "true", "True", "1", "yes", "Yes"; "TRUE" and "YES" turn it off.
\<close>

theorem enable_influxdb_values:
  "ENABLE_INFLUXDB var =
     (var = None \<or> var = Some ''true'' \<or> var = Some ''True'' \<or> var = Some ''1''
      \<or> var = Some ''yes'' \<or> var = Some ''Yes'')
   \<and> \<not> ENABLE_INFLUXDB (Some ''TRUE'') \<and> \<not> ENABLE_INFLUXDB (Some ''YES'')"
  by (cases var) (auto simp: ENABLE_INFLUXDB_def getenv_def)

end
